theory Spec2Isabelle
  imports Complex_Main
begin

section \<open>The Mamba2 layer of CountMamba (model\_mamba2.py)\<close>

text \<open>
  Tensors are nested lists of reals: a vector is a \<open>real list\<close>, a matrix a list of rows.
  The arithmetic of the layer is float32 in the source and exact real arithmetic here, so
  every equation below is one of real numbers; rounding is not part of the model.
  Index expressions such as the einsum contractions of \<open>forward_stage\<close> are written as
  comprehensions over the index ranges that the layer's dimensions give.
\<close>

type_synonym vec = "real list"
type_synonym mat = "real list list"

datatype error = AssertionError | AttributeError | ShapeError

subsection \<open>Parameters (\<open>Mamba2.__init__\<close>)\<close>

text \<open>
  The fields are the attributes that \<open>__init__\<close> stores. \<open>norm_gated\<close> stands for
  \<open>self.norm\<close>, the gated RMS normalisation of the mamba\_ssm package, which acts on one
  position at a time: it takes the scan output \<open>y\<close> and the gate \<open>z\<close> of a position.
\<close>

record mamba2 =
  layer_idx :: "nat option"
  d_model :: nat
  d_state :: nat
  d_conv :: nat
  expand :: nat
  headdim :: nat
  chunk_size :: nat
  in_proj_weight :: mat
  conv1d_weight :: mat
  conv1d_bias :: vec
  dt_bias :: vec
  A_log :: vec
  D_skip :: vec
  norm_gated :: "vec \<Rightarrow> vec \<Rightarrow> vec"
  out_proj_weight :: mat

definition d_inner :: "mamba2 \<Rightarrow> nat" where
  "d_inner m = expand m * d_model m"

definition nheads :: "mamba2 \<Rightarrow> nat" where
  "nheads m = d_inner m div headdim m"

definition conv_dim :: "mamba2 \<Rightarrow> nat" where
  "conv_dim m = d_inner m + 2 * d_state m"

definition d_in_proj :: "mamba2 \<Rightarrow> nat" where
  "d_in_proj m = 2 * d_inner m + 2 * d_state m + nheads m"

text \<open>The shapes that \<open>__init__\<close> gives the parameter tensors.\<close>

definition wf_mamba2 :: "mamba2 \<Rightarrow> bool" where
  "wf_mamba2 m \<longleftrightarrow>
     0 < headdim m \<and> d_inner m = nheads m * headdim m \<and>
     length (in_proj_weight m) = d_in_proj m \<and>
     list_all (\<lambda>row. length row = d_model m) (in_proj_weight m) \<and>
     length (conv1d_weight m) = conv_dim m \<and>
     list_all (\<lambda>row. length row = d_conv m) (conv1d_weight m) \<and>
     length (conv1d_bias m) = conv_dim m \<and>
     length (dt_bias m) = nheads m \<and>
     length (A_log m) = nheads m \<and>
     length (D_skip m) = nheads m \<and>
     length (out_proj_weight m) = d_model m \<and>
     list_all (\<lambda>row. length row = d_inner m) (out_proj_weight m)"

subsection \<open>Elementwise functions\<close>

text \<open>\<open>nn.SiLU\<close>: \<open>x * sigmoid(x)\<close>.\<close>

definition sigmoid :: "real \<Rightarrow> real" where
  "sigmoid x = 1 / (1 + exp (- x))"

definition silu :: "real \<Rightarrow> real" where
  "silu x = x * sigmoid x"

text \<open>\<open>F.softplus\<close> with its defaults \<open>beta = 1\<close>, \<open>threshold = 20\<close>: linear above the threshold.\<close>

definition softplus :: "real \<Rightarrow> real" where
  "softplus x = (if 20 < x then x else ln (1 + exp x))"

text \<open>\<open>F.linear\<close> without bias: one dot product per row of the weight.\<close>

definition F_linear :: "mat \<Rightarrow> vec \<Rightarrow> vec" where
  "F_linear W x = map (\<lambda>row. sum_list (map2 (*) row x)) W"

subsection \<open>The SSM step of \<open>forward_stage\<close>\<close>

text \<open>\<open>A = -torch.exp(self.A_log.float())\<close>, read at head \<open>h\<close>.\<close>

definition decay_base :: "mamba2 \<Rightarrow> nat \<Rightarrow> real" where
  "decay_base m h = - exp (A_log m ! h)"

text \<open>\<open>dt = F.softplus(dt + self.dt_bias)\<close>, read at head \<open>h\<close>.\<close>

definition dt_eff :: "mamba2 \<Rightarrow> vec \<Rightarrow> nat \<Rightarrow> real" where
  "dt_eff m dt h = softplus (dt ! h + dt_bias m ! h)"

text \<open>\<open>dA = torch.exp(dt * A)\<close>, read at head \<open>h\<close>.\<close>

definition decay :: "mamba2 \<Rightarrow> vec \<Rightarrow> nat \<Rightarrow> real" where
  "decay m dt h = exp (dt_eff m dt h * decay_base m h)"

text \<open>
  \<open>x = rearrange(x, "b (h p) -> b h p")\<close>: entry \<open>(h, p)\<close> of the rearranged tensor is entry
  \<open>h * headdim + p\<close> of the flat one.
\<close>

definition head_x :: "mamba2 \<Rightarrow> vec \<Rightarrow> nat \<Rightarrow> nat \<Rightarrow> real" where
  "head_x m x h p = x ! (h * headdim m + p)"

text \<open>
  \<open>dBx = einsum("bh,bn,bhp->bhpn", dt, B, x)\<close> and
  \<open>ssm_state.copy_(ssm_state * rearrange(dA, "b h -> b h 1 1") + dBx)\<close>.
\<close>

definition ssm_update :: "mamba2 \<Rightarrow> real list list list \<Rightarrow> vec \<Rightarrow> vec \<Rightarrow> vec \<Rightarrow> real list list list" where
  "ssm_update m ssm dt x B =
     map (\<lambda>h. map (\<lambda>p. map (\<lambda>n.
            ssm ! h ! p ! n * decay m dt h + dt_eff m dt h * (B ! n) * head_x m x h p)
          [0..<d_state m]) [0..<headdim m]) [0..<nheads m]"

text \<open>
  \<open>y = einsum("bhpn,bn->bhp", ssm_state, C)\<close>, \<open>y = y + rearrange(D, "h -> h 1") * x\<close> and
  \<open>y = rearrange(y, "b h p -> b (h p)")\<close>.
\<close>

definition ssm_read :: "mamba2 \<Rightarrow> real list list list \<Rightarrow> vec \<Rightarrow> vec \<Rightarrow> vec" where
  "ssm_read m ssm x C =
     concat (map (\<lambda>h. map (\<lambda>p.
            (\<Sum>n<d_state m. ssm ! h ! p ! n * (C ! n)) + D_skip m ! h * head_x m x h p)
          [0..<headdim m]) [0..<nheads m])"

definition ssm_step :: "mamba2 \<Rightarrow> real list list list \<Rightarrow> vec \<Rightarrow> vec \<Rightarrow> vec \<Rightarrow> vec \<Rightarrow> real list list list \<times> vec" where
  "ssm_step m ssm dt x B C =
     (let ssm' = ssm_update m ssm dt x B in (ssm', ssm_read m ssm' x C))"

subsection \<open>The cache (\<open>inference_params.key_value_memory_dict\<close>)\<close>

text \<open>
  A cache entry is the pair \<open>(conv_state, ssm_state)\<close> with the batch axis as the outer list:
  \<open>conv_state\<close> has shape batch x conv\_dim x d\_conv, \<open>ssm_state\<close> has shape
  batch x nheads x headdim x d\_state. \<open>inference_params\<close> is \<open>None\<close> or an object that
  holds the dictionary. The tensors are mutated in place by the source; the model returns the
  dictionary with the entry replaced.
\<close>

type_synonym state = "real list list list \<times> real list list list list"
type_synonym cache = "nat \<rightharpoonup> state"

definition get_states_from_cache :: "mamba2 \<Rightarrow> cache option \<Rightarrow> nat \<Rightarrow> error + (state \<times> cache)" where
  "get_states_from_cache m inference_params batch_size =
     (case layer_idx m of
        None \<Rightarrow> Inl AssertionError
      | Some k \<Rightarrow>
          (case inference_params of
             None \<Rightarrow> Inl AttributeError
           | Some c \<Rightarrow>
               (case c k of
                  None \<Rightarrow>
                    (let conv_state = replicate batch_size
                           (replicate (length (conv1d_weight m)) (replicate (d_conv m) 0));
                         ssm_state = replicate batch_size
                           (replicate (nheads m) (replicate (headdim m) (replicate (d_state m) 0)))
                     in Inr ((conv_state, ssm_state), c(k \<mapsto> (conv_state, ssm_state))))
                | Some st \<Rightarrow> Inr (st, c))))"

text \<open>In-place \<open>copy_\<close> into the tensors held under \<open>layer_idx\<close>.\<close>

definition cache_put :: "mamba2 \<Rightarrow> cache \<Rightarrow> state \<Rightarrow> cache" where
  "cache_put m c st = (case layer_idx m of None \<Rightarrow> c | Some k \<Rightarrow> c(k \<mapsto> st))"

text \<open>
  \<open>forward_test\<close> and \<open>forward_stage\<close> ask the cache for batch size 1 and combine the cached
  tensors with the parameters elementwise. The model follows them on cached tensors of the
  shape that \<open>_get_states_from_cache\<close> allocates for one sequence; on any other cached shape,
  where torch fails to broadcast, it returns \<open>ShapeError\<close>.
\<close>

definition state_shape_ok :: "mamba2 \<Rightarrow> state \<Rightarrow> bool" where
  "state_shape_ok m st \<longleftrightarrow>
     length (fst st) = 1 \<and>
     list_all (\<lambda>cb. length cb = conv_dim m \<and> list_all (\<lambda>r. length r = d_conv m) cb) (fst st) \<and>
     length (snd st) = 1 \<and>
     list_all (\<lambda>sb. length sb = nheads m \<and>
        list_all (\<lambda>hp. length hp = headdim m \<and> list_all (\<lambda>r. length r = d_state m) hp) sb) (snd st)"

subsection \<open>Input projection and the splits\<close>

text \<open>
  \<open>zxbcdt = self.in_proj(x)\<close> followed by \<open>torch.split\<close> into
  \<open>z0, x0, z, xBC, dt\<close>; the result is \<open>(z, xBC, dt)\<close>.
\<close>

definition in_proj_split :: "mamba2 \<Rightarrow> vec \<Rightarrow> vec \<times> vec \<times> vec" where
  "in_proj_split m hidden =
     (let zxbcdt = F_linear (in_proj_weight m) hidden;
          d_mlp = (length zxbcdt - 2 * d_inner m - 2 * d_state m - nheads m) div 2
      in (take (d_inner m) (drop (2 * d_mlp) zxbcdt),
          take (d_inner m + 2 * d_state m) (drop (2 * d_mlp + d_inner m) zxbcdt),
          take (nheads m) (drop (2 * d_mlp + d_inner m + (d_inner m + 2 * d_state m)) zxbcdt)))"

text \<open>\<open>x, B, C = torch.split(xBC, [d_inner, d_state, d_state])\<close>.\<close>

definition split_xBC :: "mamba2 \<Rightarrow> vec \<Rightarrow> vec \<times> vec \<times> vec" where
  "split_xBC m xBC =
     (take (d_inner m) xBC,
      take (d_state m) (drop (d_inner m) xBC),
      take (d_state m) (drop (d_inner m + d_state m) xBC))"

subsection \<open>The conv step of \<open>forward_stage\<close>\<close>

text \<open>
  \<open>conv_state.copy_(torch.roll(conv_state, shifts=-1, dims=-1))\<close> and
  \<open>conv_state[:, :, -1] = xBC\<close>, for one channel.
\<close>

definition roll_set :: "real list \<Rightarrow> real \<Rightarrow> real list" where
  "roll_set r v = (rotate1 r)[length r - 1 := v]"

text \<open>\<open>torch.sum(conv_state * weight, dim=-1) + bias\<close> and the activation, for channel \<open>c\<close>.\<close>

definition conv_channel_out :: "mamba2 \<Rightarrow> nat \<Rightarrow> real list \<Rightarrow> real" where
  "conv_channel_out m c window =
     silu (sum_list (map2 (*) window (conv1d_weight m ! c)) + conv1d_bias m ! c)"

definition conv_step :: "mamba2 \<Rightarrow> real list list \<Rightarrow> vec \<Rightarrow> real list list \<times> vec" where
  "conv_step m conv_state xBC =
     (let conv_state' = map (\<lambda>c. roll_set (conv_state ! c) (xBC ! c)) [0..<conv_dim m]
      in (conv_state', map (\<lambda>c. conv_channel_out m c (conv_state' ! c)) [0..<conv_dim m]))"

subsection \<open>\<open>forward_stage\<close>\<close>

text \<open>The body of \<open>forward_stage\<close> on the cached tensors of the single batch item.\<close>

definition stage_body :: "mamba2 \<Rightarrow> real list list \<times> real list list list \<Rightarrow> vec
    \<Rightarrow> vec \<times> (real list list \<times> real list list list)" where
  "stage_body m st hidden =
     (let (z, xBC, dt) = in_proj_split m hidden;
          (conv_state', xBC') = conv_step m (fst st) xBC;
          (x, B, C) = split_xBC m xBC';
          (ssm_state', y) = ssm_step m (snd st) dt x B C;
          out = F_linear (out_proj_weight m) (norm_gated m y z)
      in (out, (conv_state', ssm_state')))"

text \<open>
  The argument is the single timestep \<open>hidden_states.squeeze(1)\<close>; the result is the
  one-position sequence \<open>out.unsqueeze(1)\<close> together with the cache.
\<close>

definition forward_stage :: "mamba2 \<Rightarrow> vec \<Rightarrow> cache option \<Rightarrow> error + (vec list \<times> cache)" where
  "forward_stage m hidden inference_params =
     (case get_states_from_cache m inference_params 1 of
        Inl e \<Rightarrow> Inl e
      | Inr (st, c) \<Rightarrow>
          if length hidden \<noteq> d_model m \<or> \<not> state_shape_ok m st then Inl ShapeError
          else (let (out, (conv_state', ssm_state')) = stage_body m (hd (fst st), hd (snd st)) hidden
                in Inr ([out], cache_put m c ([conv_state'], [ssm_state']))))"

subsection \<open>The bulk convolution of \<open>forward_test\<close>\<close>

text \<open>\<open>F.pad(t, (n, 0))\<close> on the last axis: a negative amount crops from the left.\<close>

definition F_pad :: "int \<Rightarrow> real list \<Rightarrow> real list" where
  "F_pad n xs = (if 0 \<le> n then replicate (nat n) 0 @ xs else drop (nat (- n)) xs)"

text \<open>\<open>conv_state.copy_(F.pad(xBC_t, (self.d_conv - xBC_t.shape[-1], 0)))\<close>.\<close>

definition conv_seed :: "mamba2 \<Rightarrow> vec list \<Rightarrow> real list list" where
  "conv_seed m xBCs =
     map (\<lambda>c. F_pad (int (d_conv m) - int (length xBCs)) (map (\<lambda>v. v ! c) xBCs)) [0..<conv_dim m]"

text \<open>
  \<open>nn.Conv1d\<close> with \<open>groups = conv_dim\<close> and \<open>padding = d_conv - 1\<close>, for channel \<open>c\<close>: the
  input is padded with zeros on both sides and every output is the kernel against a window
  of the padded input, plus the bias.
\<close>

definition conv1d_channel :: "mamba2 \<Rightarrow> nat \<Rightarrow> real list \<Rightarrow> real list" where
  "conv1d_channel m c xs =
     (let padded = replicate (d_conv m - 1) 0 @ xs @ replicate (d_conv m - 1) 0
      in map (\<lambda>t. sum_list (map2 (*) (take (d_conv m) (drop t padded)) (conv1d_weight m ! c))
                  + conv1d_bias m ! c)
           [0..<length xs + d_conv m - 1])"

text \<open>The Python slice \<open>xs[:-n]\<close> for \<open>n \<ge> 0\<close>: \<open>xs[:-0]\<close> is \<open>xs[:0]\<close>, the empty list.\<close>

definition slice_to_neg :: "nat \<Rightarrow> 'a list \<Rightarrow> 'a list" where
  "slice_to_neg n xs = (if n = 0 then [] else take (length xs - n) xs)"

text \<open>
  \<open>self.act(self.conv1d(xBC.transpose(1, 2)).transpose(1, 2)[:, :-(self.d_conv - 1)])\<close>:
  the result is indexed by time, then by channel.
\<close>

definition conv1d_bulk :: "mamba2 \<Rightarrow> vec list \<Rightarrow> vec list" where
  "conv1d_bulk m xBCs =
     (let per_channel = map (\<lambda>c. conv1d_channel m c (map (\<lambda>v. v ! c) xBCs)) [0..<conv_dim m];
          by_time = map (\<lambda>t. map (\<lambda>c. per_channel ! c ! t) [0..<conv_dim m])
                      [0..<length xBCs + d_conv m - 1]
      in map (map silu) (slice_to_neg (d_conv m - 1) by_time))"

subsection \<open>The scan\<close>

text \<open>The scan input of one timestep: \<open>(dt, x, B, C)\<close>, with \<open>dt\<close> the raw timestep logits.\<close>

type_synonym scan_in = "vec \<times> vec \<times> vec \<times> vec"

definition in_dt :: "scan_in \<Rightarrow> vec" where "in_dt s = fst s"
definition in_x :: "scan_in \<Rightarrow> vec" where "in_x s = fst (snd s)"
definition in_B :: "scan_in \<Rightarrow> vec" where "in_B s = fst (snd (snd s))"
definition in_C :: "scan_in \<Rightarrow> vec" where "in_C s = snd (snd (snd s))"

text \<open>
  The sequential strategy: the SSM step of \<open>forward_stage\<close> applied to the timesteps in
  order; the result is the outputs and the final state.
\<close>

fun scan_sequential :: "mamba2 \<Rightarrow> real list list list \<Rightarrow> scan_in list \<Rightarrow> vec list \<times> real list list list" where
  "scan_sequential m ssm [] = ([], ssm)"
| "scan_sequential m ssm (s # rest) =
     (let (ssm', y) = ssm_step m ssm (in_dt s) (in_x s) (in_B s) (in_C s);
          (ys, ssm'') = scan_sequential m ssm' rest
      in (y # ys, ssm''))"

text \<open>
  Modelled from the spec: \<open>mamba_chunk_scan_combined\<close> is a kernel of the mamba\_ssm package
  and not part of the repository. Section 4.3 of the spec describes the chunked-parallel
  strategy: the sequence is split into chunks of \<open>chunk_size\<close> timesteps; inside a chunk the
  contribution of every earlier timestep of the chunk is given in closed form, with the
  decays between two timesteps composed into one; the state at the chunk boundary is
  carried from chunk to chunk.
\<close>

function chunks :: "nat \<Rightarrow> 'a list \<Rightarrow> 'a list list" where
  "chunks q xs = (if q = 0 \<or> xs = [] then [] else take q xs # chunks q (drop q xs))"
  by pat_completeness auto
termination
  by (relation "measure (\<lambda>(q, xs). length xs)") auto

text \<open>The decay accumulated over the timesteps \<open>j+1 .. t\<close> of chunk \<open>ch\<close>, for head \<open>h\<close>.\<close>

definition seg_decay :: "mamba2 \<Rightarrow> scan_in list \<Rightarrow> nat \<Rightarrow> nat \<Rightarrow> nat \<Rightarrow> real" where
  "seg_decay m ch h j t = exp (decay_base m h * (\<Sum>k\<in>{j<..t}. dt_eff m (in_dt (ch ! k)) h))"

text \<open>The decay accumulated from the start of the chunk through timestep \<open>t\<close>.\<close>

definition head_decay :: "mamba2 \<Rightarrow> scan_in list \<Rightarrow> nat \<Rightarrow> nat \<Rightarrow> real" where
  "head_decay m ch h t = exp (decay_base m h * (\<Sum>k\<le>t. dt_eff m (in_dt (ch ! k)) h))"

text \<open>Intra-chunk part of the output at timestep \<open>t\<close> of the chunk, entry \<open>(h, p)\<close>.\<close>

definition chunk_intra :: "mamba2 \<Rightarrow> scan_in list \<Rightarrow> nat \<Rightarrow> nat \<Rightarrow> nat \<Rightarrow> real" where
  "chunk_intra m ch t h p =
     (\<Sum>j\<le>t. (\<Sum>n<d_state m. in_C (ch ! t) ! n * (in_B (ch ! j) ! n)) * seg_decay m ch h j t
              * dt_eff m (in_dt (ch ! j)) h * head_x m (in_x (ch ! j)) h p)"

text \<open>Contribution of the state \<open>S\<close> at the chunk's left boundary to the output at \<open>t\<close>.\<close>

definition chunk_inter :: "mamba2 \<Rightarrow> real list list list \<Rightarrow> scan_in list \<Rightarrow> nat \<Rightarrow> nat \<Rightarrow> nat \<Rightarrow> real" where
  "chunk_inter m S ch t h p =
     head_decay m ch h t * (\<Sum>n<d_state m. S ! h ! p ! n * (in_C (ch ! t) ! n))"

definition chunk_output :: "mamba2 \<Rightarrow> real list list list \<Rightarrow> scan_in list \<Rightarrow> nat \<Rightarrow> vec" where
  "chunk_output m S ch t =
     concat (map (\<lambda>h. map (\<lambda>p.
            chunk_intra m ch t h p + chunk_inter m S ch t h p
            + D_skip m ! h * head_x m (in_x (ch ! t)) h p)
          [0..<headdim m]) [0..<nheads m])"

text \<open>The state after the timesteps \<open>0 .. t\<close> of the chunk, from the boundary state \<open>S\<close>.\<close>

definition chunk_state_at :: "mamba2 \<Rightarrow> real list list list \<Rightarrow> scan_in list \<Rightarrow> nat \<Rightarrow> real list list list" where
  "chunk_state_at m S ch t =
     map (\<lambda>h. map (\<lambda>p. map (\<lambda>n.
            head_decay m ch h t * (S ! h ! p ! n)
            + (\<Sum>j\<le>t. seg_decay m ch h j t * dt_eff m (in_dt (ch ! j)) h
                       * (in_B (ch ! j) ! n) * head_x m (in_x (ch ! j)) h p))
          [0..<d_state m]) [0..<headdim m]) [0..<nheads m]"

text \<open>The state at the chunk's right boundary.\<close>

definition chunk_state :: "mamba2 \<Rightarrow> real list list list \<Rightarrow> scan_in list \<Rightarrow> real list list list" where
  "chunk_state m S ch = chunk_state_at m S ch (length ch - 1)"

fun scan_chunks :: "mamba2 \<Rightarrow> real list list list \<Rightarrow> scan_in list list \<Rightarrow> vec list \<times> real list list list" where
  "scan_chunks m S [] = ([], S)"
| "scan_chunks m S (ch # rest) =
     (let ys = map (chunk_output m S ch) [0..<length ch];
          (ys', S') = scan_chunks m (chunk_state m S ch) rest
      in (ys @ ys', S'))"

text \<open>The state that a scan starts from when no initial state is passed.\<close>

definition zero_ssm :: "mamba2 \<Rightarrow> real list list list" where
  "zero_ssm m = replicate (nheads m) (replicate (headdim m) (replicate (d_state m) 0))"

text \<open>
  \<open>mamba_chunk_scan_combined(x, dt, A, B, C, chunk_size, D, dt_bias, dt_softplus=True,
  return_final_states=True)\<close>: the outputs and the final state.
\<close>

definition mamba_chunk_scan_combined :: "mamba2 \<Rightarrow> scan_in list \<Rightarrow> vec list \<times> real list list list" where
  "mamba_chunk_scan_combined m ins = scan_chunks m (zero_ssm m) (chunks (chunk_size m) ins)"

subsection \<open>\<open>forward_test\<close>\<close>

text \<open>The scan inputs that \<open>forward_test\<close> passes on: timestep logits and the split conv output.\<close>

definition scan_inputs :: "vec list \<Rightarrow> (vec \<times> vec \<times> vec) list \<Rightarrow> scan_in list" where
  "scan_inputs dts xBCs = map2 (\<lambda>dt xBC. (dt, xBC)) dts xBCs"

text \<open>
  The body of \<open>forward_test\<close>: the output sequence, the new conv window and the final SSM
  state. The scan needs as many timestep logits as conv outputs.
\<close>

definition test_body :: "mamba2 \<Rightarrow> vec list \<Rightarrow> error + (vec list \<times> (real list list \<times> real list list list))" where
  "test_body m u =
     (let zxbcdt = map (in_proj_split m) u;
          zs = map fst zxbcdt;
          xBCs = map (\<lambda>r. fst (snd r)) zxbcdt;
          dts = map (\<lambda>r. snd (snd r)) zxbcdt;
          conv_state' = conv_seed m xBCs;
          xBC' = conv1d_bulk m xBCs
      in if length xBC' \<noteq> length dts then Inl ShapeError
         else (let (ys, last_state) = mamba_chunk_scan_combined m
                       (scan_inputs dts (map (split_xBC m) xBC'));
                   out = map2 (\<lambda>y z. F_linear (out_proj_weight m) (norm_gated m y z)) ys zs
               in Inr (out, (conv_state', last_state))))"

definition forward_test :: "mamba2 \<Rightarrow> vec list \<Rightarrow> cache option \<Rightarrow> error + (vec list \<times> cache)" where
  "forward_test m u inference_params =
     (case get_states_from_cache m inference_params 1 of
        Inl e \<Rightarrow> Inl e
      | Inr (st, c) \<Rightarrow>
          if \<not> list_all (\<lambda>v. length v = d_model m) u \<or> \<not> state_shape_ok m st then Inl ShapeError
          else (case test_body m u of
                  Inl e \<Rightarrow> Inl e
                | Inr (out, (conv_state', ssm_state')) \<Rightarrow>
                    Inr (out, cache_put m c ([conv_state'], [ssm_state']))))"

subsection \<open>\<open>forward_train\<close>, \<open>forward\<close> and \<open>forward_evaluate\<close>\<close>

text \<open>
  \<open>mamba_split_conv1d_scan_combined\<close> is a fused kernel of the mamba\_ssm package; it is a
  parameter here, applied to the arguments that \<open>forward_train\<close> passes. The batch is the
  outer list of \<open>u\<close>.
\<close>

record fused_args =
  arg_zxbcdt :: "vec list list"
  arg_conv_weight :: mat
  arg_conv_bias :: vec
  arg_dt_bias :: vec
  arg_A :: vec
  arg_D :: vec
  arg_chunk_size :: nat
  arg_rmsnorm :: "vec \<Rightarrow> vec \<Rightarrow> vec"
  arg_outproj_weight :: mat
  arg_headdim :: nat

definition forward_train :: "(fused_args \<Rightarrow> vec list list) \<Rightarrow> mamba2 \<Rightarrow> vec list list \<Rightarrow> vec list list" where
  "forward_train mamba_split_conv1d_scan_combined m u =
     (let zxbcdt = map (map (F_linear (in_proj_weight m))) u;
          A = map (\<lambda>a. - exp a) (A_log m)
      in mamba_split_conv1d_scan_combined
           \<lparr>arg_zxbcdt = zxbcdt, arg_conv_weight = conv1d_weight m, arg_conv_bias = conv1d_bias m,
            arg_dt_bias = dt_bias m, arg_A = A, arg_D = D_skip m, arg_chunk_size = chunk_size m,
            arg_rmsnorm = norm_gated m, arg_outproj_weight = out_proj_weight m,
            arg_headdim = headdim m\<rparr>)"

text \<open>\<open>forward\<close> returns its output together with the \<open>inference_params\<close> it was given.\<close>

definition forward :: "(fused_args \<Rightarrow> vec list list) \<Rightarrow> mamba2 \<Rightarrow> vec list list \<Rightarrow> cache option
    \<Rightarrow> vec list list \<times> cache option" where
  "forward fused m u inference_params = (let out = forward_train fused m u in (out, inference_params))"

text \<open>The loop \<open>for i in range(start_position, u.shape[1])\<close> of \<open>forward_evaluate\<close>.\<close>

fun stage_loop :: "mamba2 \<Rightarrow> vec list \<Rightarrow> nat list \<Rightarrow> vec list \<times> cache \<Rightarrow> error + (vec list \<times> cache)" where
  "stage_loop m u [] r = Inr r"
| "stage_loop m u (i # rest) r =
     (case forward_stage m (u ! i) (Some (snd r)) of
        Inl e \<Rightarrow> Inl e
      | Inr r' \<Rightarrow> stage_loop m u rest r')"

text \<open>The positions that the loop of \<open>forward_evaluate\<close> visits: \<open>range(start_position, u.shape[1])\<close>.\<close>

definition step_positions :: "vec list \<Rightarrow> nat list" where
  "step_positions u = (let start_position = length u in [start_position..<length u])"

definition forward_evaluate :: "mamba2 \<Rightarrow> vec list \<Rightarrow> cache option \<Rightarrow> error + (vec list \<times> cache)" where
  "forward_evaluate m u inference_params =
     (let start_position = length u;
          u0 = take start_position u
      in case forward_test m u0 inference_params of
           Inl e \<Rightarrow> Inl e
         | Inr r \<Rightarrow> stage_loop m u (step_positions u) r)"

subsection \<open>A small layer\<close>

text \<open>
  A layer with \<open>d_model = 1\<close>, \<open>expand = 2\<close>, \<open>headdim = 1\<close> (two heads), \<open>d_state = 1\<close>,
  \<open>d_conv = 2\<close> and \<open>chunk_size = 2\<close>, used to instantiate the theorems below.
\<close>

definition m_ex :: mamba2 where
  "m_ex = \<lparr>layer_idx = Some 0, d_model = 1, d_state = 1, d_conv = 2, expand = 2, headdim = 1,
     chunk_size = 2,
     in_proj_weight = [[1], [1], [1], [1], [1], [1], [1], [1]],
     conv1d_weight = [[1, 1], [1, 1], [1, 1], [1, 1]],
     conv1d_bias = [0, 0, 0, 0],
     dt_bias = [0, 0], A_log = [0, 0], D_skip = [1, 1],
     norm_gated = (\<lambda>y z. map2 (\<lambda>a b. a * silu b) y z),
     out_proj_weight = [[1, 1]]\<rparr>"


section \<open>Properties\<close>

lemma ssm_update_nth:
  "h < nheads m \<Longrightarrow> p < headdim m \<Longrightarrow> n < d_state m \<Longrightarrow>
   ssm_update m ssm dt x B ! h ! p ! n
     = ssm ! h ! p ! n * decay m dt h + dt_eff m dt h * (B ! n) * head_x m x h p"
  by (simp add: ssm_update_def)

lemma concat_uniform_length:
  "length (concat (map (\<lambda>h. map (f h) [0..<P]) [0..<H])) = H * P"
  by (induction H) simp_all

lemma concat_uniform_nth:
  "h < H \<Longrightarrow> p < P \<Longrightarrow> concat (map (\<lambda>h. map (f h) [0..<P]) [0..<H]) ! (h * P + p) = f h p"
proof (induction H)
  case 0
  then show ?case by simp
next
  case (Suc H)
  show ?case
  proof (cases "h < H")
    case True
    then have "h * P + p < H * P"
      using Suc.prems(2) by (metis add.commute less_le_trans mult_Suc Suc_leI add_less_cancel_left mult_le_mono1)
    with True Suc show ?thesis by (simp add: nth_append concat_uniform_length)
  next
    case False
    with Suc.prems have "h = H" by simp
    with Suc.prems show ?thesis by (simp add: nth_append concat_uniform_length)
  qed
qed

lemma ssm_read_nth:
  "h < nheads m \<Longrightarrow> p < headdim m \<Longrightarrow>
   ssm_read m ssm x C ! (h * headdim m + p)
     = (\<Sum>n<d_state m. ssm ! h ! p ! n * (C ! n)) + D_skip m ! h * head_x m x h p"
  unfolding ssm_read_def by (rule concat_uniform_nth)

lemma wf_m_ex: "wf_mamba2 m_ex"
  by (simp add: wf_mamba2_def m_ex_def d_inner_def nheads_def conv_dim_def d_in_proj_def)

lemma dims_m_ex:
  "nheads m_ex = 2" "headdim m_ex = 1" "d_state m_ex = 1" "d_conv m_ex = 2" "d_model m_ex = 1"
  "d_inner m_ex = 2" "conv_dim m_ex = 4" "chunk_size m_ex = 2" "layer_idx m_ex = Some 0"
  by (simp_all add: m_ex_def d_inner_def nheads_def conv_dim_def)



subsection \<open>The SSM step\<close>

text \<open>
  C5. For every head \<open>h\<close>, every state and every single-timestep input \<open>(dt, x, B, C)\<close>, the
  SSM step of \<open>forward_stage\<close> takes \<open>dt_eff = softplus(dt_h + dt_bias_h)\<close> and
  \<open>decay = exp(dt_eff * A_h)\<close> with \<open>A_h = -exp(A_log_h)\<close>, replaces the state entry
  \<open>S[h][p][n]\<close> by \<open>S[h][p][n] * decay + dt_eff * B[n] * x[h][p]\<close>, and returns
  \<open>y[h][p]\<close> as the contraction of the new state with \<open>C\<close> over the state dimension plus
  \<open>D_h * x[h][p]\<close>.
\<close>

theorem ssm_step_formula:
  assumes "h < nheads m" and "p < headdim m"
  shows "(\<forall>n<d_state m.
            fst (ssm_step m S dt x B C) ! h ! p ! n
              = S ! h ! p ! n * exp (softplus (dt ! h + dt_bias m ! h) * (- exp (A_log m ! h)))
                + softplus (dt ! h + dt_bias m ! h) * (B ! n) * (x ! (h * headdim m + p)))
       \<and> snd (ssm_step m S dt x B C) ! (h * headdim m + p)
              = (\<Sum>n<d_state m. fst (ssm_step m S dt x B C) ! h ! p ! n * (C ! n))
                + D_skip m ! h * (x ! (h * headdim m + p))"
  using assms
  by (simp add: ssm_step_def Let_def ssm_update_nth ssm_read_nth decay_def dt_eff_def
      decay_base_def head_x_def)

theorem ssm_step_formula_witness:
  "(1::nat) < nheads m_ex \<and> (0::nat) < headdim m_ex \<and> (0::nat) < d_state m_ex
   \<and> fst (ssm_step m_ex (zero_ssm m_ex) [0, 0] [1, 1] [1] [1]) ! 1 ! 0 ! 0
          = zero_ssm m_ex ! 1 ! 0 ! 0
              * exp (softplus ([0, 0] ! 1 + dt_bias m_ex ! 1) * (- exp (A_log m_ex ! 1)))
            + softplus ([0, 0] ! 1 + dt_bias m_ex ! 1) * ([1] ! 0) * ([1, 1] ! (1 * headdim m_ex + 0))
   \<and> snd (ssm_step m_ex (zero_ssm m_ex) [0, 0] [1, 1] [1] [1]) ! (1 * headdim m_ex + 0)
          = (\<Sum>n<d_state m_ex. fst (ssm_step m_ex (zero_ssm m_ex) [0, 0] [1, 1] [1] [1]) ! 1 ! 0 ! n * ([1] ! n))
            + D_skip m_ex ! 1 * ([1, 1] ! (1 * headdim m_ex + 0))"
proof -
  have h: "(1::nat) < nheads m_ex" and p: "(0::nat) < headdim m_ex"
    and n: "(0::nat) < d_state m_ex"
    by (simp_all add: dims_m_ex)
  show ?thesis
    using h p n ssm_step_formula [OF h p, of "zero_ssm m_ex" "[0, 0]" "[1, 1]" "[1]" "[1]"]
    by blast
qed

subsection \<open>The cache\<close>

text \<open>
  C9. Beginning a session: when the cache has no entry for the layer,
  \<open>_get_states_from_cache\<close> stores and returns a zero conv window of shape
  batch x conv\_dim x d\_conv and a zero SSM state of shape batch x nheads x headdim x d\_state;
  when an entry exists, it returns that entry and leaves the cache as it is.
\<close>

theorem get_states_begin:
  assumes "wf_mamba2 m" and "layer_idx m = Some k"
  shows "(c k = None \<longrightarrow>
            get_states_from_cache m (Some c) b
              = Inr ((replicate b (replicate (conv_dim m) (replicate (d_conv m) 0)),
                      replicate b (replicate (nheads m) (replicate (headdim m) (replicate (d_state m) 0)))),
                     c(k \<mapsto> (replicate b (replicate (conv_dim m) (replicate (d_conv m) 0)),
                       replicate b (replicate (nheads m) (replicate (headdim m) (replicate (d_state m) 0)))))))
       \<and> (\<forall>st. c k = Some st \<longrightarrow> get_states_from_cache m (Some c) b = Inr (st, c))"
  using assms by (simp add: get_states_from_cache_def wf_mamba2_def Let_def)

theorem get_states_begin_witness:
  "wf_mamba2 m_ex \<and> layer_idx m_ex = Some 0
   \<and> get_states_from_cache m_ex (Some Map.empty) 1
       = Inr (([[[0, 0], [0, 0], [0, 0], [0, 0]]], [[[[0]], [[0]]]]),
              [0 \<mapsto> ([[[0, 0], [0, 0], [0, 0], [0, 0]]], [[[[0]], [[0]]]])])
   \<and> get_states_from_cache m_ex (Some [0 \<mapsto> ([[[1, 2], [3, 4], [5, 6], [7, 8]]], [[[[9]], [[10]]]])]) 1
       = Inr (([[[1, 2], [3, 4], [5, 6], [7, 8]]], [[[[9]], [[10]]]]),
              [0 \<mapsto> ([[[1, 2], [3, 4], [5, 6], [7, 8]]], [[[[9]], [[10]]]])])"
proof -
  have l: "layer_idx m_ex = Some 0" by (simp add: dims_m_ex)
  have r: "replicate 4 x = [x, x, x, x]" "replicate 2 x = [x, x]" for x :: "'a"
    by (simp_all add: numeral_eq_Suc)
  show ?thesis
    using wf_m_ex l
      get_states_begin [OF wf_m_ex l, of Map.empty 1]
      get_states_begin [OF wf_m_ex l,
        of "[0 \<mapsto> ([[[1, 2], [3, 4], [5, 6], [7, 8]]], [[[[9]], [[10]]]])]" 1]
    by (simp add: dims_m_ex r)
qed

subsection \<open>The conv step\<close>







subsection \<open>Sessions\<close>





subsection \<open>\<open>forward\<close> and \<open>forward_evaluate\<close>\<close>

text \<open>
  C10. For every input \<open>u\<close> and every \<open>inference_params\<close>, \<open>None\<close> included, \<open>forward\<close>
  returns the output of \<open>forward_train\<close> on \<open>u\<close> and leaves \<open>inference_params\<close> as it was.
\<close>

theorem forward_ignores_cache:
  "forward fused m u inference_params = (forward_train fused m u, inference_params)"
  by (simp add: forward_def)

text \<open>
  C4. For every input \<open>u\<close>, \<open>forward_evaluate\<close> takes the whole of \<open>u\<close> as the prefix, its
  loop visits no position, and its result is that of \<open>forward_test\<close> on \<open>u\<close>.
\<close>

theorem forward_evaluate_is_forward_test:
  "step_positions u = [] \<and> forward_evaluate m u inference_params = forward_test m u inference_params"
  by (simp add: forward_evaluate_def step_positions_def split: sum.split)

theorem forward_evaluate_is_forward_test_witness:
  "step_positions [[1], [1], [1]] = []
   \<and> forward_evaluate m_ex [[1], [1], [1]] (Some Map.empty)
       = forward_test m_ex [[1], [1], [1]] (Some Map.empty)"
  by (rule forward_evaluate_is_forward_test)

end
